theory Spec2Isabelle
  imports Main "HOL-Library.Word"
begin

section \<open>JavaScript strings\<close>

text \<open>
  A JavaScript string is a sequence of UTF-16 code units. String literals of the source that
  are plain ASCII are written through \<open>ascii\<close>; the one literal that is not (the warning sign
  in front of the connectivity apology) is written with its code units.
\<close>

type_synonym code_unit = "16 word"
type_synonym jsstring = "code_unit list"

definition ascii :: "string \<Rightarrow> jsstring" where
  "ascii s = map (\<lambda>c. of_nat (of_char c)) s"

text \<open>
  \<open>String.prototype.trim\<close> removes the ECMAScript WhiteSpace and LineTerminator code points
  from both ends: TAB, LF, VT, FF, CR, SPACE, NBSP, U+1680, U+2000..U+200A, U+2028, U+2029,
  U+202F, U+205F, U+3000 and U+FEFF.
\<close>

definition isWhiteSpace :: "code_unit \<Rightarrow> bool" where
  "isWhiteSpace c \<longleftrightarrow>
     c = 0x0009 \<or> c = 0x000A \<or> c = 0x000B \<or> c = 0x000C \<or> c = 0x000D \<or> c = 0x0020 \<or>
     c = 0x00A0 \<or> c = 0x1680 \<or> (0x2000 \<le> c \<and> c \<le> 0x200A) \<or> c = 0x2028 \<or>
     c = 0x2029 \<or> c = 0x202F \<or> c = 0x205F \<or> c = 0x3000 \<or> c = 0xFEFF"

definition trim :: "jsstring \<Rightarrow> jsstring" where
  "trim s = rev (dropWhile isWhiteSpace (rev (dropWhile isWhiteSpace s)))"

text \<open>
  \<open>Number.prototype.toString\<close> on the values of \<open>Date.now()\<close>: a count of milliseconds since
  the epoch, a natural number far below \<open>2^53\<close>, so that \<open>Date.now() + 1\<close> is exact and the
  result is the decimal numeral.
\<close>

fun toString :: "nat \<Rightarrow> jsstring" where
  "toString n =
     (if n < 10 then [of_nat (48 + n)]
      else toString (n div 10) @ [of_nat (48 + n mod 10)])"

declare toString.simps [simp del]

text \<open>\<open>a || b\<close> on strings: the left operand unless it is \<open>undefined\<close>, \<open>null\<close> or empty.\<close>

definition or_else :: "jsstring option \<Rightarrow> jsstring \<Rightarrow> jsstring" where
  "or_else a b = (case a of None \<Rightarrow> b | Some t \<Rightarrow> if t \<noteq> [] then t else b)"


section \<open>The transport client (lib/api)\<close>

text \<open>
  Values of a JSON request body as the facades build them: \<open>null\<close>, a string, the default
  \<open>{}\<close> of an omitted \<open>context\<close>, or a caller's value of type \<open>any\<close>, which the code passes
  on without looking at it.
\<close>

datatype 'a jvalue = JNull | JString jsstring | JEmptyObject | JAny 'a

type_synonym 'a jobject = "(string \<times> 'a jvalue) list"

datatype http_method = GET | POST | PUT

text \<open>What a rejected call carries: an axios error with \<open>error.response?.status\<close>, the
  TypeError of a property read on \<open>null\<close> or \<open>undefined\<close>, or the SecurityError of reading
  \<open>localStorage\<close> where the browser denies access to storage.\<close>

datatype error = AxiosError "nat option" | TypeError | SecurityError

datatype 'r outcome = Fulfilled 'r | Rejected error

record 'a config =
  baseURL :: string
  verb :: http_method
  url :: string
  headers :: "string \<rightharpoonup> jsstring"
  body :: "'a jobject"

text \<open>
  The environment of the client: whether \<open>window\<close> is defined; whether the browser denies
  access to storage, so that reading \<open>localStorage\<close> throws; the contents of \<open>localStorage\<close>;
  and the network together with the backend, which answer a dispatched request with the
  data of a response or with a rejection.
\<close>

record ('a, 'r) env =
  has_window :: bool
  storage_denied :: bool
  localStorage :: "string \<rightharpoonup> jsstring"
  network :: "'a config \<Rightarrow> 'r outcome"

definition API_URL :: string where
  "API_URL = ''http://localhost:8000''"

text \<open>\<open>localStorage.getItem(key)\<close>: the value stored, \<open>null\<close> when there is none, and an
  exception when access to storage is denied.\<close>

definition getItem :: "bool \<Rightarrow> (string \<rightharpoonup> jsstring) \<Rightarrow> string \<Rightarrow> error + jsstring option" where
  "getItem denied storage key = (if denied then Inl SecurityError else Inr (storage key))"

text \<open>The request interceptor: its handler for a configuration, which is not guarded against
  an exception of \<open>localStorage\<close>, and its handler for an error of an earlier step of the
  chain.\<close>

definition request_fulfilled ::
  "bool \<Rightarrow> bool \<Rightarrow> (string \<rightharpoonup> jsstring) \<Rightarrow> 'a config \<Rightarrow> error + 'a config" where
  "request_fulfilled window_defined denied storage config =
     (if window_defined then
        (case getItem denied storage ''token'' of
           Inl err \<Rightarrow> Inl err
         | Inr token \<Rightarrow>
             (case token of
                None \<Rightarrow> Inr config
              | Some t \<Rightarrow>
                  if t \<noteq> []
                  then Inr (config\<lparr>headers :=
                         (headers config)(''Authorization'' \<mapsto> ascii ''Bearer '' @ t)\<rparr>)
                  else Inr config))
      else Inr config)"

definition request_rejected :: "error \<Rightarrow> error + 'a config" where
  "request_rejected e = Inl e"

definition request_interceptor ::
  "bool \<Rightarrow> bool \<Rightarrow> (string \<rightharpoonup> jsstring) \<Rightarrow> error + 'a config \<Rightarrow> error + 'a config" where
  "request_interceptor window_defined denied storage p =
     (case p of
        Inr config \<Rightarrow> request_fulfilled window_defined denied storage config
      | Inl e \<Rightarrow> request_rejected e)"

text \<open>The response interceptor: a response passes; on a 401 the handler does nothing (the
  redirect is commented out) and the error is rejected again, as every other error is.\<close>

definition response_interceptor :: "'r outcome \<Rightarrow> 'r outcome" where
  "response_interceptor res =
     (case res of
        Fulfilled r \<Rightarrow> Fulfilled r
      | Rejected e \<Rightarrow> Rejected e)"

text \<open>The arguments of \<open>api.post(path, data)\<close>.\<close>

record 'a post_args =
  path :: string
  json :: "'a jobject"

definition post_config :: "'a post_args \<Rightarrow> 'a config" where
  "post_config call =
     \<lparr>baseURL = API_URL, verb = POST, url = path call,
      headers = [''Content-Type'' \<mapsto> ascii ''application/json''],
      body = json call\<rparr>"

text \<open>What the chain of request interceptors hands to the network, or the error it rejects
  the request with before anything is sent.\<close>

definition dispatched :: "('a, 'r) env \<Rightarrow> 'a post_args \<Rightarrow> error + 'a config" where
  "dispatched e call =
     request_interceptor (has_window e) (storage_denied e) (localStorage e)
       (Inr (post_config call))"

definition api_post :: "('a, 'r) env \<Rightarrow> 'a post_args \<Rightarrow> 'r outcome" where
  "api_post e call =
     (case dispatched e call of
        Inl err \<Rightarrow> response_interceptor (Rejected err)
      | Inr config \<Rightarrow> response_interceptor (network e config))"



section \<open>The agent facade (AgentAPI)\<close>

text \<open>An omitted argument (\<open>None\<close>) takes the default of the parameter list:
  \<open>context = {}\<close>, \<open>role = "patient"\<close>.\<close>

definition sendMessage_args :: "jsstring \<Rightarrow> 'a option \<Rightarrow> jsstring option \<Rightarrow> 'a post_args" where
  "sendMessage_args query context role =
     \<lparr>path = ''/agent/execute'',
      json = [(''user_query'', JString query),
              (''role'', JString (case role of None \<Rightarrow> ascii ''patient'' | Some r \<Rightarrow> r)),
              (''context'', (case context of None \<Rightarrow> JEmptyObject | Some c \<Rightarrow> JAny c)),
              (''agent_type'', JNull)]\<rparr>"

definition sendMessage ::
  "('a, 'r) env \<Rightarrow> jsstring \<Rightarrow> 'a option \<Rightarrow> jsstring option \<Rightarrow> error + 'r" where
  "sendMessage e query context role =
     (case api_post e (sendMessage_args query context role) of
        Fulfilled d \<Rightarrow> Inr d
      | Rejected err \<Rightarrow> Inl err)"

definition bookSlot_args :: "jsstring \<Rightarrow> jsstring \<Rightarrow> 'a post_args" where
  "bookSlot_args slotId patientId =
     \<lparr>path = ''/agent/execute'',
      json = [(''agent_type'', JString (ascii ''appointment'')),
              (''intent'', JString (ascii ''book'')),
              (''slot_id'', JString slotId),
              (''patient_id'', JString patientId),
              (''user_query'', JString (ascii ''Confirm booking''))]\<rparr>"

definition bookSlot :: "('a, 'r) env \<Rightarrow> jsstring \<Rightarrow> jsstring \<Rightarrow> error + 'r" where
  "bookSlot e slotId patientId =
     (case api_post e (bookSlot_args slotId patientId) of
        Fulfilled d \<Rightarrow> Inr d
      | Rejected err \<Rightarrow> Inl err)"


section \<open>The chat session (PatientChatWidget)\<close>

datatype role = User | Agent

datatype action_type = booking_suggestion | link

record 'a action =
  type :: action_type
  label :: jsstring
  data :: "'a option"

record 'a message =
  msg_id :: jsstring
  role :: role
  content :: jsstring
  action :: "'a action option"

text \<open>
  The data of a reply of the agent endpoint, read through the three properties the widget
  looks at. A property that is missing or \<open>null\<close> is \<open>None\<close>; \<open>response_text\<close> and
  \<open>action_taken\<close> are strings when present, \<open>slots\<close> is passed on as it is.
\<close>

record 'a reply =
  response_text :: "jsstring option"
  action_taken :: "jsstring option"
  slots :: "'a option"

text \<open>The state of the widget that \<open>handleSend\<close> reads and writes, and the browser console
  it logs to.\<close>

record 'a widget =
  messages :: "'a message list"
  input :: jsstring
  loading :: bool
  console :: "error list"

definition welcome_message :: "'a message" where
  "welcome_message =
     \<lparr>msg_id = ascii ''welcome'', role = Agent,
      content = ascii ''Hello! I am Dr. AI. How can I help you today? I can schedule appointments, check records, or answer basic questions.'',
      action = None\<rparr>"

definition init :: "'a widget" where
  "init = \<lparr>messages = [welcome_message], input = [], loading = False, console = []\<rparr>"

definition no_text_response :: jsstring where
  "no_text_response = ascii ''I processed that, but have no text response.''"

definition connection_trouble :: jsstring where
  "connection_trouble =
     [0x26A0, 0xFE0F] @
     ascii '' I'm having trouble connecting to the clinic server. Please try again later.''"

text \<open>
  \<open>handleSend\<close> up to its \<open>await\<close>: the guard on the trimmed input, the user message, the
  loading flag, and the call of \<open>api.post\<close> with its arguments. \<open>now\<close> is the value of
  \<open>Date.now()\<close>. The second component is the call made, \<open>None\<close> on the early return.
\<close>

definition handleSend_begin :: "nat \<Rightarrow> 'a widget \<Rightarrow> 'a widget \<times> 'a post_args option" where
  "handleSend_begin now s =
     (if trim (input s) = [] then (s, None)
      else
        let userText = input s;
            userMsg = \<lparr>msg_id = toString now, role = User, content = userText, action = None\<rparr>
        in (s\<lparr>input := [], messages := messages s @ [userMsg], loading := True\<rparr>,
            Some \<lparr>path = ''/agent/execute'',
                  json = [(''user_query'', JString userText),
                          (''session_id'', JString (ascii ''patient-session-1''))]\<rparr>))"

definition agentMsg :: "nat \<Rightarrow> 'a reply \<Rightarrow> 'a message" where
  "agentMsg now r =
     \<lparr>msg_id = toString (now + 1),
      role = Agent,
      content = or_else (response_text r) no_text_response,
      action =
        (if action_taken r = Some (ascii ''booking_intent'')
         then Some \<lparr>type = booking_suggestion, label = ascii ''View Available Slots'',
                     data = slots r\<rparr>
         else None)\<rparr>"

text \<open>
  \<open>handleSend\<close> after its \<open>await\<close>. The \<open>try\<close> block fails with the rejection of the call,
  or with a TypeError when the data of the response is \<open>null\<close> or \<open>undefined\<close> (\<open>None\<close>) and
  \<open>res.data.response_text\<close> is read; the \<open>catch\<close> block logs the error and appends the
  apology; the \<open>finally\<close> block clears the loading flag. The result is what the promise of
  \<open>handleSend\<close> settles with.
\<close>

definition try_block :: "nat \<Rightarrow> 'a reply option outcome \<Rightarrow> 'a widget \<Rightarrow> error + 'a widget" where
  "try_block now res s =
     (case res of
        Rejected e \<Rightarrow> Inl e
      | Fulfilled d \<Rightarrow>
          (case d of
             None \<Rightarrow> Inl TypeError
           | Some r \<Rightarrow> Inr (s\<lparr>messages := messages s @ [agentMsg now r]\<rparr>)))"

definition catch_block :: "nat \<Rightarrow> error \<Rightarrow> 'a widget \<Rightarrow> 'a widget" where
  "catch_block now e s =
     s\<lparr>console := console s @ [e],
       messages := messages s @
         [\<lparr>msg_id = toString now, role = Agent, content = connection_trouble, action = None\<rparr>]\<rparr>"

definition finally_block :: "'a widget \<Rightarrow> 'a widget" where
  "finally_block s = s\<lparr>loading := False\<rparr>"

definition handleSend_settle ::
  "nat \<Rightarrow> nat \<Rightarrow> 'a reply option outcome \<Rightarrow> 'a widget \<Rightarrow> error + 'a widget" where
  "handleSend_settle now_try now_catch res s =
     (case try_block now_try res s of
        Inr s' \<Rightarrow> Inr (finally_block s')
      | Inl e \<Rightarrow> Inr (finally_block (catch_block now_catch e s)))"

text \<open>One whole call of \<open>handleSend\<close> with nothing else happening in between.\<close>

definition handleSend ::
  "('a, 'a reply option) env \<Rightarrow> nat \<Rightarrow> nat \<Rightarrow> nat \<Rightarrow> 'a widget \<Rightarrow> error + 'a widget" where
  "handleSend e now now_try now_catch s =
     (case handleSend_begin now s of
        (s1, None) \<Rightarrow> Inr s1
      | (s1, Some call) \<Rightarrow> handleSend_settle now_try now_catch (api_post e call) s1)"

text \<open>
  The controls of the form, as they are rendered: the input field with
  \<open>disabled={loading}\<close>, the submit button with \<open>disabled={!input.trim() || loading}\<close>.
\<close>

definition input_disabled :: "'a widget \<Rightarrow> bool" where
  "input_disabled s \<longleftrightarrow> loading s"

definition submit_disabled :: "'a widget \<Rightarrow> bool" where
  "submit_disabled s \<longleftrightarrow> trim (input s) = [] \<or> loading s"


section \<open>Basic facts about \<open>handleSend\<close>\<close>

lemma trim_Nil: "trim [] = []"
  by (simp add: trim_def)

text \<open>The only guard of \<open>handleSend\<close> is the one on the trimmed input; the loading flag is
  not read.\<close>

lemma handleSend_begin_blank:
  "trim (input s) = [] \<Longrightarrow> handleSend_begin now s = (s, None)"
  by (simp add: handleSend_begin_def)

lemma handleSend_begin_guard:
  "snd (handleSend_begin now s) = None \<longleftrightarrow> trim (input s) = []"
  by (simp add: handleSend_begin_def Let_def)

lemma handleSend_begin_dispatch:
  "handleSend_begin now s = (s1, Some call) \<Longrightarrow>
     trim (input s) \<noteq> [] \<and>
     s1 = s\<lparr>input := [],
            messages := messages s @
              [\<lparr>msg_id = toString now, role = User, content = input s, action = None\<rparr>],
            loading := True\<rparr> \<and>
     call = \<lparr>path = ''/agent/execute'',
             json = [(''user_query'', JString (input s)),
                     (''session_id'', JString (ascii ''patient-session-1''))]\<rparr>"
  by (auto simp add: handleSend_begin_def Let_def split: if_splits)

lemma handleSend_begin_hi:
  "handleSend_begin 1000 (init\<lparr>input := ascii ''hi''\<rparr> :: unit widget) =
     (\<lparr>messages =
         [welcome_message,
          \<lparr>msg_id = toString 1000, role = User, content = ascii ''hi'', action = None\<rparr>],
       input = [], loading = True, console = []\<rparr>,
      Some \<lparr>path = ''/agent/execute'',
            json = [(''user_query'', JString (ascii ''hi'')),
                    (''session_id'', JString (ascii ''patient-session-1''))]\<rparr>)"
  by (simp add: handleSend_begin_def trim_def ascii_def isWhiteSpace_def init_def Let_def)

lemma handleSend_settle_loading:
  "handleSend_settle now_try now_catch res s = Inr s' \<Longrightarrow> \<not> loading s' \<and> input s' = input s"
  by (auto simp add: handleSend_settle_def try_block_def catch_block_def finally_block_def
      split: outcome.splits option.splits sum.splits)

lemma handleSend_settle_reply:
  "handleSend_settle now_try now_catch (Fulfilled (Some r)) s =
     Inr (s\<lparr>messages := messages s @ [agentMsg now_try r], loading := False\<rparr>)"
  by (simp add: handleSend_settle_def try_block_def finally_block_def)


section \<open>Sending while a request is in flight\<close>

text \<open>While the loading flag is raised, both controls of the form are disabled.\<close>

lemma controls_disabled_while_loading:
  "loading s \<Longrightarrow> input_disabled s \<and> submit_disabled s"
  by (simp add: input_disabled_def submit_disabled_def)

text \<open>
  C1 (the code departs from it). \<open>handleSend\<close> itself does not read the loading flag. "hi"
  is sent at time 1000: the loading flag is raised and the request is in flight. A call of
  \<open>handleSend\<close> at time 1001 that sees the text "hi" as its input (the handler of the render
  before the send, or the field edited by a script) appends a second user message and makes
  a second request.
\<close>

theorem send_while_loading_dispatches_again:
  "loading (fst (handleSend_begin 1000 (init\<lparr>input := ascii ''hi''\<rparr> :: unit widget))) \<and>
   handleSend_begin 1001
     ((fst (handleSend_begin 1000 (init\<lparr>input := ascii ''hi''\<rparr> :: unit widget)))
        \<lparr>input := ascii ''hi''\<rparr>) =
     (\<lparr>messages =
         [welcome_message,
          \<lparr>msg_id = ascii ''1000'', role = User, content = ascii ''hi'', action = None\<rparr>,
          \<lparr>msg_id = ascii ''1001'', role = User, content = ascii ''hi'', action = None\<rparr>],
       input = [], loading = True, console = []\<rparr>,
      Some \<lparr>path = ''/agent/execute'',
            json = [(''user_query'', JString (ascii ''hi'')),
                    (''session_id'', JString (ascii ''patient-session-1''))]\<rparr>)"
  by (simp add: handleSend_begin_hi)
    (simp add: handleSend_begin_def trim_def ascii_def isWhiteSpace_def Let_def
      toString.simps)

section \<open>A turn of the conversation\<close>






section \<open>The message built from a reply\<close>

text \<open>
  C4. When the reply has no \<open>response_text\<close>, the message appended for it has the content
  "I processed that, but have no text response.", whatever the state of the widget and the
  time, hence the same on every such reply.
\<close>

theorem missing_response_text_yields_fallback:
  assumes "response_text r = None"
  shows "\<exists>s' m. handleSend_settle now_try now_catch (Fulfilled (Some r)) s = Inr s' \<and>
           messages s' = messages s @ [m] \<and>
           content m = ascii ''I processed that, but have no text response.''"
  using assms
  by (simp add: handleSend_settle_def try_block_def finally_block_def agentMsg_def
      or_else_def no_text_response_def)

theorem missing_response_text_yields_fallback_witness:
  "response_text (\<lparr>response_text = None, action_taken = None, slots = None\<rparr> :: unit reply) = None \<and>
   (\<exists>s' m. handleSend_settle 1200 1200
       (Fulfilled (Some \<lparr>response_text = None, action_taken = None, slots = None\<rparr>))
       (init :: unit widget) = Inr s' \<and>
     messages s' = [welcome_message, m] \<and>
     content m = ascii ''I processed that, but have no text response.'')"
proof -
  have h: "response_text (\<lparr>response_text = None, action_taken = None, slots = None\<rparr> :: unit reply) = None"
    by simp
  from missing_response_text_yields_fallback [OF h, of 1200 1200 init] h show ?thesis
    by (simp add: init_def)
qed

text \<open>
  C10. When the reply has the empty string as its \<open>response_text\<close>, the message appended
  for it has the content "I processed that, but have no text response." and not the empty
  string.
\<close>

theorem empty_response_text_yields_fallback:
  assumes "response_text r = Some []"
  shows "\<exists>s' m. handleSend_settle now_try now_catch (Fulfilled (Some r)) s = Inr s' \<and>
           messages s' = messages s @ [m] \<and>
           content m = ascii ''I processed that, but have no text response.'' \<and>
           content m \<noteq> []"
  using assms
  by (simp add: handleSend_settle_def try_block_def finally_block_def agentMsg_def
      or_else_def no_text_response_def ascii_def)

theorem empty_response_text_yields_fallback_witness:
  "response_text (\<lparr>response_text = Some [], action_taken = None, slots = None\<rparr> :: unit reply) =
     Some [] \<and>
   (\<exists>s' m. handleSend_settle 1200 1200
       (Fulfilled (Some \<lparr>response_text = Some [], action_taken = None, slots = None\<rparr>))
       (init :: unit widget) = Inr s' \<and>
     messages s' = [welcome_message, m] \<and>
     content m = ascii ''I processed that, but have no text response.'' \<and>
     content m \<noteq> [])"
proof -
  have h: "response_text (\<lparr>response_text = Some [], action_taken = None, slots = None\<rparr> :: unit reply) =
             Some []"
    by simp
  from empty_response_text_yields_fallback [OF h, of 1200 1200 init] h show ?thesis
    by (simp add: init_def)
qed

text \<open>
  C5, as stated: for every reply with \<open>action_taken = "booking_intent"\<close> the content of the
  message is the \<open>response_text\<close> of the reply. It is not so for a reply whose
  \<open>response_text\<close> is the empty string: the content is the placeholder.
\<close>

theorem booking_intent_content_counterexample:
  "action_taken
     (\<lparr>response_text = Some [], action_taken = Some (ascii ''booking_intent''),
       slots = None\<rparr> :: unit reply) = Some (ascii ''booking_intent'') \<and>
   Some (content (agentMsg 1000
     (\<lparr>response_text = Some [], action_taken = Some (ascii ''booking_intent''),
       slots = None\<rparr> :: unit reply))) \<noteq>
   response_text
     (\<lparr>response_text = Some [], action_taken = Some (ascii ''booking_intent''),
       slots = None\<rparr> :: unit reply)"
  by (simp add: agentMsg_def or_else_def no_text_response_def ascii_def)

text \<open>
  C5, amended. The message appended for a reply is \<open>agentMsg\<close> of it. For every reply with
  \<open>action_taken = "booking_intent"\<close>, its content is the \<open>response_text\<close> of the reply when
  that is present and not empty, and its action is a \<open>booking_suggestion\<close> with the label
  "View Available Slots" and the \<open>slots\<close> of the reply as data. For every reply with any
  other \<open>action_taken\<close>, or none, the message has no action.
\<close>

theorem booking_intent_builds_suggestion:
  "handleSend_settle now_try now_catch (Fulfilled (Some r)) s =
     Inr (s\<lparr>messages := messages s @ [agentMsg now_try r], loading := False\<rparr>) \<and>
   (action_taken r = Some (ascii ''booking_intent'') \<longrightarrow>
      (\<forall>t. response_text r = Some t \<and> t \<noteq> [] \<longrightarrow> content (agentMsg now_try r) = t) \<and>
      action (agentMsg now_try r) =
        Some \<lparr>type = booking_suggestion, label = ascii ''View Available Slots'',
              data = slots r\<rparr>) \<and>
   (action_taken r \<noteq> Some (ascii ''booking_intent'') \<longrightarrow> action (agentMsg now_try r) = None)"
  by (simp add: handleSend_settle_reply) (simp add: agentMsg_def or_else_def)

theorem booking_intent_builds_suggestion_witness:
  "content (agentMsg 1000
     (\<lparr>response_text = Some (ascii ''Here are available slots''),
       action_taken = Some (ascii ''booking_intent''), slots = Some ()\<rparr>)) =
     ascii ''Here are available slots'' \<and>
   action (agentMsg 1000
     (\<lparr>response_text = Some (ascii ''Here are available slots''),
       action_taken = Some (ascii ''booking_intent''), slots = Some ()\<rparr>)) =
     Some \<lparr>type = booking_suggestion, label = ascii ''View Available Slots'',
           data = Some ()\<rparr> \<and>
   action (agentMsg 1000
     (\<lparr>response_text = Some (ascii ''Hello''),
       action_taken = Some (ascii ''greeting''), slots = None :: unit option\<rparr>)) = None"
proof -
  have a: "ascii ''Here are available slots'' \<noteq> []"
    by (simp add: ascii_def)
  have b: "Some (ascii ''greeting'') \<noteq> Some (ascii ''booking_intent'')"
    by (simp add: ascii_def)
  from a b
    booking_intent_builds_suggestion [of 1000 1000
      "\<lparr>response_text = Some (ascii ''Here are available slots''),
        action_taken = Some (ascii ''booking_intent''), slots = Some ()\<rparr>" init]
    booking_intent_builds_suggestion [of 1000 1000
      "\<lparr>response_text = Some (ascii ''Hello''),
        action_taken = Some (ascii ''greeting''), slots = None :: unit option\<rparr>" init]
  show ?thesis by simp
qed


section \<open>Requests to the agent endpoint\<close>

text \<open>
  C6. Whatever the environment of the client (stored credential, window, storage, network),
  the request \<open>bookSlot\<close> builds has \<open>agent_type = "appointment"\<close>, \<open>intent = "book"\<close>,
  \<open>slot_id\<close> the given slot and \<open>patient_id\<close> the given patient. What reaches the network is
  a POST to \<open>/agent/execute\<close> with that body, and \<open>bookSlot\<close> returns the data of the answer;
  nothing else is ever sent: the one other case is that of storage denied, where the request
  is rejected before it is sent.
\<close>

theorem bookSlot_request_body:
  "map_of (json (bookSlot_args slotId patientId)) ''agent_type'' =
     Some (JString (ascii ''appointment'')) \<and>
   map_of (json (bookSlot_args slotId patientId)) ''intent'' = Some (JString (ascii ''book'')) \<and>
   map_of (json (bookSlot_args slotId patientId)) ''slot_id'' = Some (JString slotId) \<and>
   map_of (json (bookSlot_args slotId patientId)) ''patient_id'' = Some (JString patientId) \<and>
   (case dispatched e (bookSlot_args slotId patientId) of
      Inr config \<Rightarrow>
        verb config = POST \<and> url config = ''/agent/execute'' \<and>
        body config = json (bookSlot_args slotId patientId) \<and>
        bookSlot e slotId patientId =
          (case network e config of Fulfilled d \<Rightarrow> Inr d | Rejected err \<Rightarrow> Inl err)
    | Inl err \<Rightarrow>
        has_window e \<and> storage_denied e \<and> err = SecurityError \<and>
        bookSlot e slotId patientId = Inl err)"
  by (simp add: bookSlot_def api_post_def dispatched_def request_interceptor_def
      request_fulfilled_def getItem_def bookSlot_args_def post_config_def
      response_interceptor_def split: option.splits outcome.splits)

text \<open>The instance \<open>bookSlot("S1", "P1")\<close>, with a credential stored.\<close>

theorem bookSlot_request_body_witness:
  "\<exists>config :: unit config.
     dispatched
       \<lparr>has_window = True, storage_denied = False,
        localStorage = [''token'' \<mapsto> ascii ''abc''], network = (\<lambda>c. Fulfilled ())\<rparr>
       (bookSlot_args (ascii ''S1'') (ascii ''P1'')) = Inr config \<and>
     map_of (body config) ''agent_type'' = Some (JString (ascii ''appointment'')) \<and>
     map_of (body config) ''intent'' = Some (JString (ascii ''book'')) \<and>
     map_of (body config) ''slot_id'' = Some (JString (ascii ''S1'')) \<and>
     map_of (body config) ''patient_id'' = Some (JString (ascii ''P1'')) \<and>
     bookSlot
       (\<lparr>has_window = True, storage_denied = False,
         localStorage = [''token'' \<mapsto> ascii ''abc''],
         network = (\<lambda>c. Fulfilled ())\<rparr> :: (unit, unit) env)
       (ascii ''S1'') (ascii ''P1'') = Inr ()"
  using bookSlot_request_body
    [of "ascii ''S1''" "ascii ''P1''"
        "\<lparr>has_window = True, storage_denied = False,
          localStorage = [''token'' \<mapsto> ascii ''abc''],
          network = (\<lambda>c. Fulfilled ())\<rparr> :: (unit, unit) env"]
  by (auto split: sum.splits)




text \<open>
  C8, as stated: the request of a turn of the conversation is built by \<open>sendMessage\<close> and
  carries \<open>agent_type\<close>, as \<open>null\<close>. It is not so: the request \<open>handleSend\<close> makes for the
  input "hi" has the keys \<open>user_query\<close> and \<open>session_id\<close> only, and is not the request
  \<open>sendMessage\<close> builds for "hi".
\<close>

theorem session_request_omits_agent_type_counterexample:
  "snd (handleSend_begin 1000 (init\<lparr>input := ascii ''hi''\<rparr> :: unit widget)) =
     Some \<lparr>path = ''/agent/execute'',
           json = [(''user_query'', JString (ascii ''hi'')),
                   (''session_id'', JString (ascii ''patient-session-1''))]\<rparr> \<and>
   map_of [(''user_query'', JString (ascii ''hi'') :: unit jvalue),
           (''session_id'', JString (ascii ''patient-session-1''))] ''agent_type'' = None \<and>
   snd (handleSend_begin 1000 (init\<lparr>input := ascii ''hi''\<rparr> :: unit widget)) \<noteq>
     Some (sendMessage_args (ascii ''hi'') None None)"
  by (simp add: handleSend_begin_hi) (simp add: sendMessage_args_def)

text \<open>
  C8, amended. \<open>sendMessage\<close> goes through \<open>api.post\<close>: what reaches the network is a POST
  to \<open>/agent/execute\<close> whose body has exactly the keys \<open>user_query\<close>, \<open>role\<close>, \<open>context\<close> and
  \<open>agent_type\<close>, with the query, the role given or else "patient", the context given or else
  \<open>{}\<close>, and \<open>agent_type\<close> present with the value \<open>null\<close>; \<open>sendMessage\<close> returns the data of
  the answer (the one other case is that of storage denied, where the request is rejected
  before it is sent). The widget does not call \<open>sendMessage\<close>: \<open>handleSend\<close> hands \<open>api.post\<close>
  its own request, to \<open>/agent/execute\<close>, with \<open>user_query\<close>, the text sent, and
  \<open>session_id = "patient-session-1"\<close>, with no \<open>role\<close>, \<open>context\<close> or \<open>agent_type\<close>, and
  different from every request \<open>sendMessage\<close> builds.
\<close>

theorem agent_request_bodies:
  assumes "handleSend_begin now s = (s1, Some call)"
  shows "call = \<lparr>path = ''/agent/execute'',
                 json = [(''user_query'', JString (input s)),
                         (''session_id'', JString (ascii ''patient-session-1''))]\<rparr> \<and>
         map_of (json call) ''role'' = None \<and>
         map_of (json call) ''context'' = None \<and>
         map_of (json call) ''agent_type'' = None \<and>
         call \<noteq> sendMessage_args query ctx sender \<and>
         handleSend e now now_try now_catch s =
           handleSend_settle now_try now_catch (api_post e call) s1 \<and>
         (case dispatched e' (sendMessage_args query ctx sender) of
            Inr config \<Rightarrow>
              verb config = POST \<and> url config = ''/agent/execute'' \<and>
              map fst (body config) = [''user_query'', ''role'', ''context'', ''agent_type''] \<and>
              map_of (body config) ''user_query'' = Some (JString query) \<and>
              map_of (body config) ''role'' =
                Some (JString (case sender of None \<Rightarrow> ascii ''patient'' | Some r \<Rightarrow> r)) \<and>
              map_of (body config) ''context'' =
                Some (case ctx of None \<Rightarrow> JEmptyObject | Some c \<Rightarrow> JAny c) \<and>
              map_of (body config) ''agent_type'' = Some JNull \<and>
              sendMessage e' query ctx sender =
                (case network e' config of Fulfilled d \<Rightarrow> Inr d | Rejected err \<Rightarrow> Inl err)
          | Inl err \<Rightarrow>
              has_window e' \<and> storage_denied e' \<and> err = SecurityError \<and>
              sendMessage e' query ctx sender = Inl err)"
proof -
  note b = handleSend_begin_dispatch [OF assms]
  have w: "handleSend e now now_try now_catch s =
             handleSend_settle now_try now_catch (api_post e call) s1"
    by (simp add: handleSend_def assms)
  have f: "(case dispatched e' (sendMessage_args query ctx sender) of
            Inr config \<Rightarrow>
              verb config = POST \<and> url config = ''/agent/execute'' \<and>
              map fst (body config) = [''user_query'', ''role'', ''context'', ''agent_type''] \<and>
              map_of (body config) ''user_query'' = Some (JString query) \<and>
              map_of (body config) ''role'' =
                Some (JString (case sender of None \<Rightarrow> ascii ''patient'' | Some r \<Rightarrow> r)) \<and>
              map_of (body config) ''context'' =
                Some (case ctx of None \<Rightarrow> JEmptyObject | Some c \<Rightarrow> JAny c) \<and>
              map_of (body config) ''agent_type'' = Some JNull \<and>
              sendMessage e' query ctx sender =
                (case network e' config of Fulfilled d \<Rightarrow> Inr d | Rejected err \<Rightarrow> Inl err)
          | Inl err \<Rightarrow>
              has_window e' \<and> storage_denied e' \<and> err = SecurityError \<and>
              sendMessage e' query ctx sender = Inl err)"
    by (simp add: sendMessage_def api_post_def dispatched_def request_interceptor_def
        request_fulfilled_def getItem_def sendMessage_args_def post_config_def
        response_interceptor_def split: option.splits outcome.splits)
  from b have c: "call \<noteq> sendMessage_args query ctx sender"
    by (simp add: sendMessage_args_def)
  from b w f c show ?thesis by simp
qed

theorem agent_request_bodies_witness:
  "\<exists>s1 call config.
     handleSend_begin 1000 (init\<lparr>input := ascii ''hi''\<rparr> :: unit widget) = (s1, Some call) \<and>
     json call = [(''user_query'', JString (ascii ''hi'')),
                  (''session_id'', JString (ascii ''patient-session-1''))] \<and>
     map_of (json call) ''agent_type'' = None \<and>
     dispatched
       (\<lparr>has_window = True, storage_denied = False, localStorage = Map.empty,
         network = (\<lambda>c. Fulfilled ())\<rparr> :: (unit, unit) env)
       (sendMessage_args (ascii ''hi'') None None) = Inr config \<and>
     map_of (body config) ''role'' = Some (JString (ascii ''patient'')) \<and>
     map_of (body config) ''context'' = Some JEmptyObject \<and>
     map_of (body config) ''agent_type'' = Some JNull"
  using agent_request_bodies [OF handleSend_begin_hi,
      where query = "ascii ''hi''" and ctx = "None :: unit option" and sender = None
        and e = "\<lparr>has_window = True, storage_denied = False, localStorage = Map.empty,
           network = (\<lambda>c. Rejected TypeError)\<rparr> :: (unit, unit reply option) env"
        and now_try = 1000 and now_catch = 1000
        and e' = "\<lparr>has_window = True, storage_denied = False, localStorage = Map.empty,
           network = (\<lambda>c. Fulfilled ())\<rparr> :: (unit, unit) env"]
    handleSend_begin_hi
  by (auto simp add: init_def split: sum.splits)


section \<open>Message ids\<close>

text \<open>
  C9 (the code departs from it). The id of a message is the reading of the clock when it
  is built, plus one for the message built from a reply. When the call is rejected within
  the millisecond of the send, the user message and the apology have the same id: here "hi"
  is sent at time 1000 and the rejection is handled at time 1000.
\<close>

theorem failed_turn_in_one_millisecond_repeats_id:
  "handleSend
     \<lparr>has_window = True, storage_denied = False, localStorage = Map.empty,
      network = (\<lambda>config. Rejected (AxiosError None))\<rparr>
     1000 1000 1000 (init\<lparr>input := ascii ''hi''\<rparr> :: unit widget) =
   Inr \<lparr>messages =
          [welcome_message,
           \<lparr>msg_id = ascii ''1000'', role = User, content = ascii ''hi'', action = None\<rparr>,
           \<lparr>msg_id = ascii ''1000'', role = Agent, content = connection_trouble,
            action = None\<rparr>],
        input = [], loading = False, console = [AxiosError None]\<rparr>"
  by (simp add: handleSend_def handleSend_begin_def trim_def ascii_def isWhiteSpace_def
      init_def Let_def api_post_def dispatched_def request_interceptor_def
      request_fulfilled_def getItem_def response_interceptor_def handleSend_settle_def
      try_block_def catch_block_def finally_block_def toString.simps)

end
